theory Spec2Isabelle
  imports Complex_Main
begin

text \<open>
  The measurement engine of the foot-scan analyser (\<open>MeasurementEngine\<close>), the shape
  classifier it shares with the scene manager, and the bilateral comparison of the scene
  manager and the report generator, as functions on the data the JavaScript works on.
  Names follow the source; where a name is taken in HOL the text says what it is here.
\<close>

section \<open>Numbers\<close>

text \<open>
  A JavaScript number is an IEEE 754 double. \<open>Fin a\<close> is the finite double whose value is
  the real number \<open>a\<close>, with \<open>Fin 0\<close> the positive zero; \<open>NZero\<close> is the negative
  zero \<open>-0\<close>; \<open>PInf\<close> and \<open>NInf\<close> are the two infinities. Every arithmetic
  operation below computes the exact real result and rounds it to the nearest double,
  ties to the even significand, as the processor does; nothing is computed in real
  arithmetic and then compared.
\<close>

datatype jsnum = Fin real | NZero | PInf | NInf | NaN

text \<open>
  Rounding. \<open>bits n\<close> is the length of the binary numeral of \<open>n\<close> and \<open>expo x\<close>
  the binary exponent of a positive real \<open>x\<close>, the integer \<open>e\<close> with
  \<open>2 ^ e <= x < 2 ^ (e + 1)\<close>. The doubles around \<open>x\<close> are \<open>ulp x\<close> apart: 52
  binary places below the exponent, and no finer than \<open>2 ^ -1074\<close> (the subnormal
  range, exponent -1022). \<open>rnd x\<close> is the multiple of \<open>ulp x\<close> nearest to \<open>x\<close>,
  the even multiple when two are equally near. \<open>round_to neg x\<close> is the double
  result of an operation whose exact result is \<open>x\<close>: an infinity when the rounded
  magnitude reaches \<open>2 ^ 1024\<close>, a zero of the sign \<open>neg\<close> when it is zero.
  \<open>js x\<close> is the double that the decimal literal \<open>x\<close> of the source denotes.
\<close>

fun bits :: "nat \<Rightarrow> nat" where
  "bits n = (if n = 0 then 0 else Suc (bits (n div 2)))"

declare bits.simps [simp del]

definition expo :: "real \<Rightarrow> int" where
  "expo x = (if 1 \<le> x then int (bits (nat \<lfloor>x\<rfloor>)) - 1
             else - int (bits (nat (\<lceil>1 / x\<rceil> - 1))))"

definition pow2 :: "int \<Rightarrow> real" where
  "pow2 k = (if 0 \<le> k then 2 ^ nat k else 1 / 2 ^ nat (- k))"

definition ulp :: "real \<Rightarrow> real" where
  "ulp x = pow2 (max (expo \<bar>x\<bar>) (- 1022) - 52)"

definition nearest_even :: "real \<Rightarrow> int" where
  "nearest_even q =
     (let n = \<lfloor>q\<rfloor>; f = q - of_int n
      in if f < 1 / 2 then n else if 1 / 2 < f then n + 1 else if even n then n else n + 1)"

definition rnd :: "real \<Rightarrow> real" where
  "rnd x = (if x = 0 then 0 else of_int (nearest_even (x / ulp x)) * ulp x)"

definition round_to :: "bool \<Rightarrow> real \<Rightarrow> jsnum" where
  "round_to neg x =
     (let y = rnd x
      in if 2 ^ 1024 \<le> \<bar>y\<bar> then (if x < 0 then NInf else PInf)
         else if y = 0 then (if neg then NZero else Fin 0)
         else Fin y)"

definition js :: "real \<Rightarrow> jsnum" where
  "js x = round_to (x < 0) x"

text \<open>
  The value of a finite double, the test for the two zeros, and the sign bit.
\<close>

fun val :: "jsnum \<Rightarrow> real" where
  "val (Fin a) = a"
| "val NZero = 0"
| "val PInf = 0"
| "val NInf = 0"
| "val NaN = 0"


fun is_zero :: "jsnum \<Rightarrow> bool" where
  "is_zero (Fin a) = (a = 0)"
| "is_zero NZero = True"
| "is_zero PInf = False"
| "is_zero NInf = False"
| "is_zero NaN = False"

fun signbit :: "jsnum \<Rightarrow> bool" where
  "signbit (Fin a) = (a < 0)"
| "signbit NZero = True"
| "signbit PInf = False"
| "signbit NInf = True"
| "signbit NaN = False"

definition signed_inf :: "bool \<Rightarrow> jsnum" where
  "signed_inf neg = (if neg then NInf else PInf)"

definition signed_zero :: "bool \<Rightarrow> jsnum" where
  "signed_zero neg = (if neg then NZero else Fin 0)"

text \<open>
  The operators \<open>-a\<close>, \<open>a + b\<close>, \<open>a - b\<close>, \<open>a * b\<close> and \<open>a / b\<close>. A sum
  that is exactly zero is \<open>-0\<close> only when both summands are negative; a product or
  quotient takes the exclusive or of the signs; \<open>0 / 0\<close>, \<open>\<infinity> - \<infinity>\<close>,
  \<open>\<infinity> / \<infinity>\<close> and \<open>0 * \<infinity>\<close> are NaN.
\<close>

fun jsneg :: "jsnum \<Rightarrow> jsnum" where
  "jsneg (Fin a) = (if a = 0 then NZero else Fin (- a))"
| "jsneg NZero = Fin 0"
| "jsneg PInf = NInf"
| "jsneg NInf = PInf"
| "jsneg NaN = NaN"

fun jsadd :: "jsnum \<Rightarrow> jsnum \<Rightarrow> jsnum" where
  "jsadd NaN _ = NaN"
| "jsadd _ NaN = NaN"
| "jsadd PInf NInf = NaN"
| "jsadd NInf PInf = NaN"
| "jsadd PInf _ = PInf"
| "jsadd _ PInf = PInf"
| "jsadd NInf _ = NInf"
| "jsadd _ NInf = NInf"
| "jsadd a b =
     (let s = val a + val b
      in if s = 0 then signed_zero (signbit a \<and> signbit b) else round_to (s < 0) s)"

definition jssub :: "jsnum \<Rightarrow> jsnum \<Rightarrow> jsnum" where
  "jssub a b = jsadd a (jsneg b)"

fun jsmul :: "jsnum \<Rightarrow> jsnum \<Rightarrow> jsnum" where
  "jsmul NaN _ = NaN"
| "jsmul _ NaN = NaN"
| "jsmul PInf b = (if is_zero b then NaN else signed_inf (signbit b))"
| "jsmul NInf b = (if is_zero b then NaN else signed_inf (\<not> signbit b))"
| "jsmul a PInf = (if is_zero a then NaN else signed_inf (signbit a))"
| "jsmul a NInf = (if is_zero a then NaN else signed_inf (\<not> signbit a))"
| "jsmul a b = round_to (signbit a \<noteq> signbit b) (val a * val b)"

fun jsdiv :: "jsnum \<Rightarrow> jsnum \<Rightarrow> jsnum" where
  "jsdiv NaN _ = NaN"
| "jsdiv _ NaN = NaN"
| "jsdiv PInf PInf = NaN"
| "jsdiv PInf NInf = NaN"
| "jsdiv NInf PInf = NaN"
| "jsdiv NInf NInf = NaN"
| "jsdiv PInf b = signed_inf (signbit b)"
| "jsdiv NInf b = signed_inf (\<not> signbit b)"
| "jsdiv a PInf = signed_zero (signbit a)"
| "jsdiv a NInf = signed_zero (\<not> signbit a)"
| "jsdiv a b =
     (if is_zero b then (if is_zero a then NaN else signed_inf (signbit a \<noteq> signbit b))
      else round_to (signbit a \<noteq> signbit b) (val a / val b))"

text \<open>
  The relational operators \<open><\<close>, \<open>>\<close>, \<open><=\<close> and \<open>>=\<close>: every comparison
  with NaN is false, and the two zeros compare equal.
\<close>

fun jslt :: "jsnum \<Rightarrow> jsnum \<Rightarrow> bool" where
  "jslt NaN _ = False"
| "jslt _ NaN = False"
| "jslt PInf _ = False"
| "jslt _ NInf = False"
| "jslt NInf _ = True"
| "jslt _ PInf = True"
| "jslt a b = (val a < val b)"

definition jsgt :: "jsnum \<Rightarrow> jsnum \<Rightarrow> bool" where
  "jsgt a b = jslt b a"

fun jsle :: "jsnum \<Rightarrow> jsnum \<Rightarrow> bool" where
  "jsle NaN _ = False"
| "jsle _ NaN = False"
| "jsle NInf _ = True"
| "jsle _ PInf = True"
| "jsle PInf _ = False"
| "jsle _ NInf = False"
| "jsle a b = (val a \<le> val b)"

definition jsge :: "jsnum \<Rightarrow> jsnum \<Rightarrow> bool" where
  "jsge a b = jsle b a"

text \<open>
  \<open>!v\<close> on a number: both zeros and NaN are falsy, every other number is truthy.
\<close>

fun falsy :: "jsnum \<Rightarrow> bool" where
  "falsy (Fin a) = (a = 0)"
| "falsy NZero = True"
| "falsy NaN = True"
| "falsy PInf = False"
| "falsy NInf = False"

text \<open>
  \<open>Math.abs\<close>, \<open>Math.max\<close> and \<open>Math.min\<close> (NaN if either argument is NaN;
  \<open>+0\<close> counts as larger than \<open>-0\<close>) and \<open>Math.round\<close> (the nearest integer,
  a tie going up; a result in \<open>[-0.5, 0)\<close> is \<open>-0\<close>).
\<close>

fun jsabs :: "jsnum \<Rightarrow> jsnum" where
  "jsabs (Fin a) = Fin \<bar>a\<bar>"
| "jsabs NZero = Fin 0"
| "jsabs PInf = PInf"
| "jsabs NInf = PInf"
| "jsabs NaN = NaN"

fun jsmax :: "jsnum \<Rightarrow> jsnum \<Rightarrow> jsnum" where
  "jsmax NaN _ = NaN"
| "jsmax _ NaN = NaN"
| "jsmax a b = (if jslt a b then b else if jslt b a then a else if a = NZero then b else a)"

fun jsmin :: "jsnum \<Rightarrow> jsnum \<Rightarrow> jsnum" where
  "jsmin NaN _ = NaN"
| "jsmin _ NaN = NaN"
| "jsmin a b = (if jslt a b then a else if jslt b a then b else if b = NZero then b else a)"

fun jsround :: "jsnum \<Rightarrow> jsnum" where
  "jsround (Fin a) = (if a < 0 \<and> - (1 / 2) \<le> a then NZero else Fin (of_int \<lfloor>a + 1 / 2\<rfloor>))"
| "jsround NZero = NZero"
| "jsround PInf = PInf"
| "jsround NInf = NInf"
| "jsround NaN = NaN"

section \<open>Sorting numbers\<close>

text \<open>
  \<open>xs.sort((a, b) => a - b)\<close> on a list of numbers. For a list without NaN the
  comparator is a consistent order (a difference that is NaN, as of two equal
  infinities, counts as zero), the specification of \<open>Array.prototype.sort\<close> then
  fixes the result, the stable ascending sort, and \<open>jssort\<close> is that sort: it
  inserts each element before the first one that is not smaller. With a NaN in the list
  the comparator is inconsistent and the order is left to the implementation;
  the statements below that depend on a sort assume lists without NaN.
\<close>

fun insort_js :: "jsnum \<Rightarrow> jsnum list \<Rightarrow> jsnum list" where
  "insort_js x [] = [x]"
| "insort_js x (y # ys) = (if jsle x y then x # y # ys else y # insort_js x ys)"

definition jssort :: "jsnum list \<Rightarrow> jsnum list" where
  "jssort xs = foldr insort_js xs []"

text \<open>
  For stating results: \<open>same_value a b\<close> holds when \<open>a\<close> and \<open>b\<close> are the same
  number up to the sign of a zero, and \<open>lowest xs\<close> and \<open>highest xs\<close> are
  \<open>Math.min(...xs)\<close> and \<open>Math.max(...xs)\<close>.
\<close>

fun unsign :: "jsnum \<Rightarrow> jsnum" where
  "unsign NZero = Fin 0"
| "unsign (Fin a) = Fin a"
| "unsign PInf = PInf"
| "unsign NInf = NInf"
| "unsign NaN = NaN"

definition same_value :: "jsnum \<Rightarrow> jsnum \<Rightarrow> bool" where
  "same_value a b = (unsign a = unsign b)"

definition lowest :: "jsnum list \<Rightarrow> jsnum" where
  "lowest xs = foldr jsmin xs PInf"

definition highest :: "jsnum list \<Rightarrow> jsnum" where
  "highest xs = foldr jsmax xs NInf"

section \<open>Unit detection\<close>

text \<open>
  The confidence labels are Korean strings in the source; each is one constructor here,
  named by its meaning, and \<open>level\<close> reads the leading word of the label
  (high, medium, low). The multiplier of the table is kept as the decimal the source
  writes; where the engine multiplies by it, it is the double \<open>js (multiplier unitData)\<close>.
\<close>

datatype confidence_label =
    High_metre_detected
  | Medium_metre_assumed
  | Medium_cm_assumed
  | High_mm_detected
  | Low_abnormal_size
  | Low_fallback_mode
  | Low_fallback

datatype confidence_level = High | Medium | Low

fun level :: "confidence_label \<Rightarrow> confidence_level" where
  "level High_metre_detected = High"
| "level Medium_metre_assumed = Medium"
| "level Medium_cm_assumed = Medium"
| "level High_mm_detected = High"
| "level Low_abnormal_size = Low"
| "level Low_fallback_mode = Low"
| "level Low_fallback = Low"

record unit_data =
  multiplier :: real
  unit :: string
  confidence :: confidence_label

definition detectUnit :: "jsnum \<Rightarrow> unit_data" where
  "detectUnit maxDim =
     (if jslt maxDim (Fin 0.5) then
        \<lparr>multiplier = 1000, unit = ''mm'', confidence = High_metre_detected\<rparr>
      else if jsge maxDim (Fin 0.5) \<and> jslt maxDim (Fin 5) then
        \<lparr>multiplier = 1000, unit = ''mm'', confidence = Medium_metre_assumed\<rparr>
      else if jsge maxDim (Fin 5) \<and> jslt maxDim (Fin 50) then
        \<lparr>multiplier = 10, unit = ''mm'', confidence = Medium_cm_assumed\<rparr>
      else if jsge maxDim (Fin 50) \<and> jsle maxDim (Fin 500) then
        \<lparr>multiplier = 1, unit = ''mm'', confidence = High_mm_detected\<rparr>
      else
        \<lparr>multiplier = 0.1, unit = ''mm'', confidence = Low_abnormal_size\<rparr>)"

section \<open>Validation\<close>

definition validateMeasurements :: "jsnum \<Rightarrow> jsnum \<Rightarrow> jsnum \<Rightarrow> bool" where
  "validateMeasurements len width height =
     (let MIN_LENGTH = Fin 50; MAX_LENGTH = Fin 500;
          MIN_WIDTH = Fin 20; MAX_WIDTH = Fin 200;
          MIN_HEIGHT = Fin 10; MAX_HEIGHT = Fin 150;
          validLength = (jsge len MIN_LENGTH \<and> jsle len MAX_LENGTH);
          validWidth = (jsge width MIN_WIDTH \<and> jsle width MAX_WIDTH);
          validHeight = (jsge height MIN_HEIGHT \<and> jsle height MAX_HEIGHT)
      in validLength \<and> validWidth \<and> validHeight)"

section \<open>Vertices and bounding boxes\<close>

text \<open>
  \<open>THREE.Vector3\<close>. Y is the vertical axis, Z runs from heel to toe and X across the
  foot.
\<close>

datatype vector3 = Vector3 (vx: jsnum) (vy: jsnum) (vz: jsnum)

text \<open>
  \<open>THREE.Box3\<close> (three.js r128, the library the engine imports): its two corners.
  \<open>makeEmpty\<close> is the box of no point, with corners \<open>(+\<infinity>, +\<infinity>, +\<infinity>)\<close> and
  \<open>(-\<infinity>, -\<infinity>, -\<infinity>)\<close>. \<open>setFromPoints\<close> widens the empty box by each point with
  \<open>Math.min\<close> and \<open>Math.max\<close>; \<open>setFromBufferAttribute\<close>, which
  \<open>computeBoundingBox\<close> uses, widens it with the comparisons \<open><\<close> and \<open>>\<close>, so a NaN
  coordinate is skipped there. A box is empty when its upper corner is below its lower
  corner on some axis; \<open>getSize\<close> is the zero vector for an empty box and
  \<open>max - min\<close> otherwise.
\<close>

datatype box3 = Box3 (bmin: vector3) (bmax: vector3)

definition makeEmpty :: box3 where
  "makeEmpty = Box3 (Vector3 PInf PInf PInf) (Vector3 NInf NInf NInf)"

fun expandByPoint :: "box3 \<Rightarrow> vector3 \<Rightarrow> box3" where
  "expandByPoint (Box3 lo hi) p =
     Box3 (Vector3 (jsmin (vx lo) (vx p)) (jsmin (vy lo) (vy p)) (jsmin (vz lo) (vz p)))
          (Vector3 (jsmax (vx hi) (vx p)) (jsmax (vy hi) (vy p)) (jsmax (vz hi) (vz p)))"

definition setFromPoints :: "vector3 list \<Rightarrow> box3" where
  "setFromPoints points = foldl expandByPoint makeEmpty points"

fun includeVertex :: "box3 \<Rightarrow> vector3 \<Rightarrow> box3" where
  "includeVertex (Box3 lo hi) p =
     Box3 (Vector3 (if jslt (vx p) (vx lo) then vx p else vx lo)
                   (if jslt (vy p) (vy lo) then vy p else vy lo)
                   (if jslt (vz p) (vz lo) then vz p else vz lo))
          (Vector3 (if jsgt (vx p) (vx hi) then vx p else vx hi)
                   (if jsgt (vy p) (vy hi) then vy p else vy hi)
                   (if jsgt (vz p) (vz hi) then vz p else vz hi))"

definition setFromBufferAttribute :: "vector3 list \<Rightarrow> box3" where
  "setFromBufferAttribute vertices = foldl includeVertex makeEmpty vertices"

definition isEmpty :: "box3 \<Rightarrow> bool" where
  "isEmpty b =
     (jslt (vx (bmax b)) (vx (bmin b)) \<or> jslt (vy (bmax b)) (vy (bmin b))
        \<or> jslt (vz (bmax b)) (vz (bmin b)))"

definition getSize :: "box3 \<Rightarrow> vector3" where
  "getSize b =
     (if isEmpty b then Vector3 (Fin 0) (Fin 0) (Fin 0)
      else Vector3 (jssub (vx (bmax b)) (vx (bmin b))) (jssub (vy (bmax b)) (vy (bmin b)))
                   (jssub (vz (bmax b)) (vz (bmin b))))"




section \<open>Landmark estimators\<close>

text \<open>
  The vertex list and the bounding box may each be missing (\<open>None\<close>). Nothing in the
  \<open>try\<close> blocks of the three estimators throws on a list of vertices, so the
  \<open>catch\<close> branches never run.
\<close>

definition measureFootLength :: "vector3 list option \<Rightarrow> box3 option \<Rightarrow> jsnum" where
  "measureFootLength vertices bbox =
     (if vertices = None \<or> length (the vertices) = 0 then
        (case bbox of Some b \<Rightarrow> vz (getSize b) | None \<Rightarrow> Fin 0)
      else
        let vs = the vertices;
            yValues = jssort (map vy vs);
            minY = yValues ! 0;
            maxY = yValues ! (length yValues - 1);
            footSoleThreshold = jsadd minY (jsmul (jssub maxY minY) (js 0.15));
            footSoleVertices = filter (\<lambda>v. jsle (vy v) footSoleThreshold) vs
        in if length footSoleVertices = 0 then
             (let zValues = jssort (map vz vs)
              in jssub (zValues ! (length zValues - 1)) (zValues ! 0))
           else
             (let zValues = jssort (map vz footSoleVertices);
                  heelZ = zValues ! 0;
                  toeZ = zValues ! (length zValues - 1);
                  len = jssub toeZ heelZ
              in jsabs len))"

definition measureFootWidth :: "vector3 list option \<Rightarrow> box3 option \<Rightarrow> jsnum" where
  "measureFootWidth vertices bbox =
     (if vertices = None \<or> length (the vertices) = 0 then
        (case bbox of Some b \<Rightarrow> vx (getSize b) | None \<Rightarrow> Fin 0)
      else
        let vs = the vertices;
            zValues = jssort (map vz vs);
            minZ = zValues ! 0;
            maxZ = zValues ! (length zValues - 1);
            footLength = jssub maxZ minZ;
            ballStartZ = jsadd minZ (jsmul footLength (js 0.6));
            ballEndZ = jsadd minZ (jsmul footLength (js 0.75));
            yValues = jssort (map vy vs);
            minY = yValues ! 0;
            maxY = yValues ! (length yValues - 1);
            footSoleThreshold = jsadd minY (jsmul (jssub maxY minY) (js 0.2));
            ballVertices =
              filter (\<lambda>v. jsge (vz v) ballStartZ \<and> jsle (vz v) ballEndZ \<and>
                           jsle (vy v) footSoleThreshold) vs
        in if length ballVertices = 0 then
             (let xValues = jssort (map vx vs)
              in jssub (xValues ! (length xValues - 1)) (xValues ! 0))
           else
             (let xValues = jssort (map vx ballVertices);
                  leftX = xValues ! 0;
                  rightX = xValues ! (length xValues - 1);
                  width = jssub rightX leftX
              in jsabs width))"

definition measureFootHeight :: "vector3 list option \<Rightarrow> box3 option \<Rightarrow> jsnum" where
  "measureFootHeight vertices bbox =
     (if vertices = None \<or> length (the vertices) = 0 then
        (case bbox of Some b \<Rightarrow> vy (getSize b) | None \<Rightarrow> Fin 0)
      else
        let vs = the vertices;
            yValues = jssort (map vy vs);
            soleY = yValues ! 0;
            zValues = jssort (map vz vs);
            minZ = zValues ! 0;
            maxZ = zValues ! (length zValues - 1);
            footLength = jssub maxZ minZ;
            instepStartZ = jsadd minZ (jsmul footLength (js 0.3));
            instepEndZ = jsadd minZ (jsmul footLength (js 0.7));
            instepVertices =
              filter (\<lambda>v. jsge (vz v) instepStartZ \<and> jsle (vz v) instepEndZ) vs
        in if length instepVertices = 0 then
             jssub (yValues ! (length yValues - 1)) soleY
           else
             (let instepYValues = jssort (map vy instepVertices);
                  instepTopY = instepYValues ! (length instepYValues - 1);
                  height = jssub instepTopY soleY
              in jsabs height))"

section \<open>Shape classification\<close>

record foot_analysis =
  footType :: string
  archType :: string
  description :: string

text \<open>
  \<open>MeasurementEngine.analyzeFootType(length, width, height)\<close>.
\<close>

definition analyzeFootType :: "jsnum \<Rightarrow> jsnum \<Rightarrow> jsnum \<Rightarrow> foot_analysis" where
  "analyzeFootType len width height =
     (if falsy len \<or> falsy width \<or> falsy height then
        \<lparr>footType = ''Analysis Pending'',
         archType = ''Analysis Pending'',
         description = ''Insufficient data for comprehensive analysis''\<rparr>
      else
        let lwRatio = jsdiv len width;
            hlRatio = jsdiv height len;
            (footType', description') =
              (if jsgt lwRatio (js 2.6) then
                 (''Long Foot Type'',
                  ''Elongated foot shape with longer toes and narrow profile'')
               else if jslt lwRatio (js 2.2) then
                 (''Wide Foot Type'', ''Broader foot shape with wider forefoot area'')
               else
                 (''Normal Foot Type'',
                  ''Well-balanced foot proportions with standard dimensions''));
            archType' =
              (if jsgt hlRatio (js 0.25) then ''High Arch''
               else if jslt hlRatio (js 0.18) then ''Low Arch / Flat Foot''
               else ''Normal Arch'')
        in \<lparr>footType = footType', archType = archType', description = description'\<rparr>)"

section \<open>Measurement records and the engine\<close>

text \<open>
  The record the engine returns. The fields \<open>length\<close>, \<open>width\<close>, \<open>height\<close>, \<open>unit\<close> and
  \<open>confidence\<close> of the source carry the prefix \<open>m_\<close> here.
\<close>

record measurement_record =
  m_length :: jsnum
  m_width :: jsnum
  m_height :: jsnum
  m_unit :: string
  m_confidence :: confidence_label
  originalVertices :: "vector3 list"
  boundingBox :: box3
  vertexCount :: nat

text \<open>
  \<open>SceneManager.analyzeFootType(measurements)\<close>: the same classification, reading the
  three dimensions from a record that may be missing.
\<close>

definition sceneManager_analyzeFootType :: "measurement_record option \<Rightarrow> foot_analysis" where
  "sceneManager_analyzeFootType measurements =
     (if measurements = None \<or> falsy (m_length (the measurements))
         \<or> falsy (m_width (the measurements)) \<or> falsy (m_height (the measurements)) then
        \<lparr>footType = ''Analysis Pending'',
         archType = ''Analysis Pending'',
         description = ''Insufficient data for comprehensive analysis''\<rparr>
      else
        let lwRatio = jsdiv (m_length (the measurements)) (m_width (the measurements));
            hlRatio = jsdiv (m_height (the measurements)) (m_length (the measurements));
            (footType', description') =
              (if jsgt lwRatio (js 2.6) then
                 (''Long Foot Type'',
                  ''Elongated foot shape with longer toes and narrow profile'')
               else if jslt lwRatio (js 2.2) then
                 (''Wide Foot Type'', ''Broader foot shape with wider forefoot area'')
               else
                 (''Normal Foot Type'',
                  ''Well-balanced foot proportions with standard dimensions''));
            archType' =
              (if jsgt hlRatio (js 0.25) then ''High Arch''
               else if jslt hlRatio (js 0.18) then ''Low Arch / Flat Foot''
               else ''Normal Arch'')
        in \<lparr>footType = footType', archType = archType', description = description'\<rparr>)"

text \<open>
  The status texts of the events are Korean strings in the source; each is one
  constructor here. An event is the \<open>CustomEvent\<close> handed to \<open>dispatchEvent\<close>: its name
  and its detail (the formatted ratio strings of the completion event are left out).
\<close>

datatype status =
    Error_invalid_3d_data
  | Analysing_foot_structure
  | Precise_measurement_running
  | Done_precision_verified
  | Done_fallback_mode

datatype event =
    MeasurementStarted status
  | MeasurementProgress status
  | MeasurementComplete measurement_record foot_analysis status confidence_label

text \<open>
  The engine: its stored record (\<open>None\<close> is the empty object \<open>{}\<close> of the constructor
  and of \<open>dispose\<close>) and the events it has dispatched so far, oldest first.
\<close>

record engine =
  footMeasurements :: "measurement_record option"
  dispatched :: "event list"

definition constructor :: engine where
  "constructor = \<lparr>footMeasurements = None, dispatched = []\<rparr>"

definition dispatchEvent :: "engine \<Rightarrow> event \<Rightarrow> engine" where
  "dispatchEvent this ev = this\<lparr>dispatched := dispatched this @ [ev]\<rparr>"

definition getMeasurements :: "engine \<Rightarrow> measurement_record option" where
  "getMeasurements this = footMeasurements this"

text \<open>
  A geometry: \<open>position\<close> is \<open>geometry.attributes.position\<close>, \<open>None\<close> when the geometry
  has no such attribute. A \<open>BufferAttribute\<close> is kept as its list of vertices (the flat
  array holds three numbers for each), so \<open>position.count\<close> is the length of the list
  and \<open>position.array.length\<close> is three times that. A \<open>GLBufferAttribute\<close> wraps a
  buffer of the graphics card: it has a \<open>count\<close> and no \<open>array\<close>.
\<close>

datatype position_attribute = BufferAttribute "vector3 list" | GLBufferAttribute nat

fun count :: "position_attribute \<Rightarrow> nat" where
  "count (BufferAttribute vertices) = length vertices"
| "count (GLBufferAttribute n) = n"

record buffer_geometry =
  position :: "position_attribute option"

text \<open>
  \<open>geometry.computeBoundingBox()\<close> followed by reading \<open>geometry.boundingBox\<close>
  (three.js r128): the box of the position buffer, the empty box when there is no
  position attribute, and the box from \<open>-\<infinity>\<close> to \<open>+\<infinity>\<close> for a \<open>GLBufferAttribute\<close>.
\<close>

definition computeBoundingBox :: "buffer_geometry \<Rightarrow> box3" where
  "computeBoundingBox geometry =
     (case position geometry of
        None \<Rightarrow> makeEmpty
      | Some (GLBufferAttribute n) \<Rightarrow> Box3 (Vector3 NInf NInf NInf) (Vector3 PInf PInf PInf)
      | Some (BufferAttribute vertices) \<Rightarrow> setFromBufferAttribute vertices)"

datatype js_error =
    TypeError
  | Error_empty_geometry
  | Error_validation_failed

record fallback_result =
  measurements :: measurement_record
  analysis :: foot_analysis

text \<open>
  \<open>performFallbackMeasurement(geometry, currentModel)\<close>. Reading
  \<open>geometry.attributes.position.count\<close> (line 196) throws a \<open>TypeError\<close> when the
  geometry has no position attribute.
\<close>

definition performFallbackMeasurement ::
  "buffer_geometry \<Rightarrow> (vector3 \<Rightarrow> vector3) option \<Rightarrow> js_error + fallback_result" where
  "performFallbackMeasurement geometry currentModel =
     (let bbox = computeBoundingBox geometry;
          size = getSize bbox;
          maxDim = jsmax (jsmax (vx size) (vy size)) (vz size);
          (unitMultiplier, unit') =
            (if jslt maxDim (Fin 1) then (Fin 1000, ''mm'')
             else if jsgt maxDim (Fin 500) then (Fin 1, ''mm'')
             else (Fin 1, ''mm''));
          footLength = jsmul (vz size) unitMultiplier;
          footWidth = jsmul (vx size) unitMultiplier;
          footHeight = jsmul (vy size) unitMultiplier
      in case position geometry of
           None \<Rightarrow> Inl TypeError
         | Some attribute \<Rightarrow>
             let measurements' =
                   \<lparr>m_length = jsmax footLength (Fin 50),
                    m_width = jsmax footWidth (Fin 30),
                    m_height = jsmax footHeight (Fin 20),
                    m_unit = unit',
                    m_confidence = Low_fallback_mode,
                    originalVertices = [],
                    boundingBox = bbox,
                    vertexCount = count attribute\<rparr>;
                 analysis' =
                   analyzeFootType (m_length measurements') (m_width measurements')
                     (m_height measurements')
             in Inr \<lparr>measurements = measurements', analysis = analysis'\<rparr>)"

text \<open>
  The \<open>try\<close> block of \<open>performPreciseMeasurements\<close> (lines 37 to 133), on the
  position buffer \<open>positions\<close>. \<open>currentModel\<close> is the rotation of the displayed model
  as a map on vertices (\<open>applyMatrix4\<close> of the matrix made from the model's Euler
  angles), \<open>None\<close> when no model is given. The result is the thrown error or the
  returned record, each with the engine as it is at that moment.
\<close>

definition performPreciseMeasurements_try ::
  "engine \<Rightarrow> vector3 list \<Rightarrow> (vector3 \<Rightarrow> vector3) option
     \<Rightarrow> (js_error \<times> engine) + (measurement_record \<times> engine)" where
  "performPreciseMeasurements_try this positions currentModel =
     (let vertexCount' = length positions in
      if vertexCount' = 0 \<or> 3 * length positions = 0 then Inl (Error_empty_geometry, this)
      else
        let originalVertices' =
              (case currentModel of None \<Rightarrow> positions | Some rot \<Rightarrow> map rot positions);
            bbox = setFromPoints originalVertices';
            size = getSize bbox;
            maxDim = jsmax (jsmax (vx size) (vy size)) (vz size);
            unitData = detectUnit maxDim;
            this1 = dispatchEvent this (MeasurementProgress Precise_measurement_running);
            footLength =
              jsmul (measureFootLength (Some originalVertices') (Some bbox))
                (js (multiplier unitData));
            footWidth =
              jsmul (measureFootWidth (Some originalVertices') (Some bbox))
                (js (multiplier unitData));
            footHeight =
              jsmul (measureFootHeight (Some originalVertices') (Some bbox))
                (js (multiplier unitData))
        in if \<not> validateMeasurements footLength footWidth footHeight then
             Inl (Error_validation_failed, this1)
           else
             let this2 = this1\<lparr>footMeasurements := Some
                   \<lparr>m_length = footLength,
                    m_width = footWidth,
                    m_height = footHeight,
                    m_unit = unit unitData,
                    m_confidence = confidence unitData,
                    originalVertices = originalVertices',
                    boundingBox = bbox,
                    vertexCount = vertexCount'\<rparr>\<rparr>;
                 analysis' = analyzeFootType footLength footWidth footHeight;
                 this3 = dispatchEvent this2
                   (MeasurementComplete (the (footMeasurements this2)) analysis'
                      Done_precision_verified (confidence unitData))
             in Inr (the (footMeasurements this3), this3))"

text \<open>
  \<open>performPreciseMeasurements(geometry, currentModel)\<close>. \<open>geometry\<close> is \<open>None\<close> for
  \<open>null\<close> or \<open>undefined\<close>. The result is \<open>Inl\<close> for an exception that leaves the call, and
  otherwise the returned value (\<open>None\<close> for the bare \<open>return\<close>) with the engine after
  the call. The log statement of lines 27 to 31 reads \<open>position.array.length\<close> before
  the \<open>try\<close> block is entered, which throws a \<open>TypeError\<close> for an attribute without an
  array.
\<close>

definition performPreciseMeasurements ::
  "engine \<Rightarrow> buffer_geometry option \<Rightarrow> (vector3 \<Rightarrow> vector3) option
     \<Rightarrow> js_error + (measurement_record option \<times> engine)" where
  "performPreciseMeasurements this geometry currentModel =
     (if geometry = None \<or> position (the geometry) = None then
        Inr (None, dispatchEvent this (MeasurementStarted Error_invalid_3d_data))
      else
        case the (position (the geometry)) of
          GLBufferAttribute n \<Rightarrow> Inl TypeError
        | BufferAttribute positions \<Rightarrow>
            (let this1 = dispatchEvent this (MeasurementStarted Analysing_foot_structure) in
             case performPreciseMeasurements_try this1 positions currentModel of
               Inr (result, this') \<Rightarrow> Inr (Some result, this')
             | Inl (error, this') \<Rightarrow>
                 (case performFallbackMeasurement (the geometry) currentModel of
                    Inl error' \<Rightarrow> Inl error'
                  | Inr fallbackResult \<Rightarrow>
                      Inr (Some (measurements fallbackResult),
                           dispatchEvent this'
                             (MeasurementComplete (measurements fallbackResult)
                                (analysis fallbackResult) Done_fallback_mode
                                Low_fallback)))))"

section \<open>Bilateral comparison\<close>

text \<open>
  The numbers that \<open>ReportGenerator.addComparisonSection\<close> prints and that
  \<open>updateComparisonData\<close> writes into the page: both compute them with the same
  statements.
\<close>

record comparison =
  lengthDiff :: jsnum
  widthDiff :: jsnum
  heightDiff :: jsnum
  lengthSymmetry :: jsnum
  widthSymmetry :: jsnum
  heightSymmetry :: jsnum
  overallSymmetry :: jsnum

definition addComparisonSection :: "measurement_record \<Rightarrow> measurement_record \<Rightarrow> comparison" where
  "addComparisonSection leftMeasurements rightMeasurements =
     (let lengthDiff' = jsabs (jssub (m_length leftMeasurements) (m_length rightMeasurements));
          widthDiff' = jsabs (jssub (m_width leftMeasurements) (m_width rightMeasurements));
          heightDiff' = jsabs (jssub (m_height leftMeasurements) (m_height rightMeasurements));
          maxLength = jsmax (m_length leftMeasurements) (m_length rightMeasurements);
          maxWidth = jsmax (m_width leftMeasurements) (m_width rightMeasurements);
          maxHeight = jsmax (m_height leftMeasurements) (m_height rightMeasurements);
          lengthSymmetry' = jsmul (jssub (Fin 1) (jsdiv lengthDiff' maxLength)) (Fin 100);
          widthSymmetry' = jsmul (jssub (Fin 1) (jsdiv widthDiff' maxWidth)) (Fin 100);
          heightSymmetry' = jsmul (jssub (Fin 1) (jsdiv heightDiff' maxHeight)) (Fin 100);
          overallSymmetry' =
            jsround (jsdiv (jsadd (jsadd lengthSymmetry' widthSymmetry') heightSymmetry') (Fin 3))
      in \<lparr>lengthDiff = lengthDiff', widthDiff = widthDiff', heightDiff = heightDiff',
          lengthSymmetry = lengthSymmetry', widthSymmetry = widthSymmetry',
          heightSymmetry = heightSymmetry', overallSymmetry = overallSymmetry'\<rparr>)"

text \<open>
  \<open>updateComparisonData()\<close> returns at once when the measurement data of either foot is
  missing (\<open>None\<close>).
\<close>

definition updateComparisonData ::
  "measurement_record option \<Rightarrow> measurement_record option \<Rightarrow> comparison option" where
  "updateComparisonData leftData rightData =
     (if leftData = None \<or> rightData = None then None
      else
        let left = the leftData;
            right = the rightData;
            lengthDiff' = jsabs (jssub (m_length left) (m_length right));
            widthDiff' = jsabs (jssub (m_width left) (m_width right));
            heightDiff' = jsabs (jssub (m_height left) (m_height right));
            maxLength = jsmax (m_length left) (m_length right);
            maxWidth = jsmax (m_width left) (m_width right);
            maxHeight = jsmax (m_height left) (m_height right);
            lengthSymmetry' = jsmul (jssub (Fin 1) (jsdiv lengthDiff' maxLength)) (Fin 100);
            widthSymmetry' = jsmul (jssub (Fin 1) (jsdiv widthDiff' maxWidth)) (Fin 100);
            heightSymmetry' = jsmul (jssub (Fin 1) (jsdiv heightDiff' maxHeight)) (Fin 100);
            overallSymmetry' =
              jsround (jsdiv (jsadd (jsadd lengthSymmetry' widthSymmetry') heightSymmetry') (Fin 3))
        in Some \<lparr>lengthDiff = lengthDiff', widthDiff = widthDiff', heightDiff = heightDiff',
                lengthSymmetry = lengthSymmetry', widthSymmetry = widthSymmetry',
                heightSymmetry = heightSymmetry', overallSymmetry = overallSymmetry'\<rparr>)"

section \<open>Sample inputs\<close>

text \<open>
  A record with the given three dimensions; the vertex written with three decimal
  literals; a scan of six vertices whose measurements pass validation, with the record
  the engine returns for it; and the record of the fallback path for the geometry of the
  single vertex \<open>(0, 0, 0)\<close>.
\<close>

definition dimensions :: "real \<Rightarrow> real \<Rightarrow> real \<Rightarrow> measurement_record" where
  "dimensions a b c = \<lparr>m_length = Fin a, m_width = Fin b, m_height = Fin c, m_unit = ''mm'',
     m_confidence = High_mm_detected, originalVertices = [],
     boundingBox = Box3 (Vector3 (Fin 0) (Fin 0) (Fin 0)) (Vector3 (Fin 0) (Fin 0) (Fin 0)),
     vertexCount = 0\<rparr>"

definition vertex :: "real \<Rightarrow> real \<Rightarrow> real \<Rightarrow> vector3" where
  "vertex a b c = Vector3 (js a) (js b) (js c)"

definition scan :: "vector3 list" where
  "scan = [vertex 0 0 0, vertex 100 60 260, vertex 50 5 180, vertex 0 3 170,
           vertex 100 2 190, vertex 50 60 130]"

definition scanRecord :: measurement_record where
  "scanRecord = \<lparr>m_length = Fin 190, m_width = Fin 100, m_height = Fin 60, m_unit = ''mm'',
     m_confidence = High_mm_detected, originalVertices = scan,
     boundingBox = Box3 (vertex 0 0 0) (vertex 100 60 260), vertexCount = 6\<rparr>"

definition pointRecord :: measurement_record where
  "pointRecord = \<lparr>m_length = Fin 50, m_width = Fin 30, m_height = Fin 20, m_unit = ''mm'',
     m_confidence = Low_fallback_mode, originalVertices = [],
     boundingBox = Box3 (vertex 0 0 0) (vertex 0 0 0), vertexCount = 1\<rparr>"

section \<open>Facts about numbers\<close>

text \<open>
  The equations that evaluate the arithmetic of doubles on given numbers.
\<close>

lemmas double_eval =
  js_def round_to_def rnd_def ulp_def expo_def pow2_def nearest_even_def Let_def bits.simps
  signed_zero_def signed_inf_def jssub_def jsgt_def jsge_def







lemma unsign_idem [simp]: "unsign (unsign a) = unsign a"
  by (cases a) auto


lemma same_value_sym: "same_value a b \<Longrightarrow> same_value b a"
  by (simp add: same_value_def)


lemma same_value_unsign [simp]: "same_value (unsign a) a" "same_value a (unsign a)"
  by (simp_all add: same_value_def)


lemma jslt_unsign: "jslt a b = jslt (unsign a) (unsign b)"
  by (cases a; cases b) auto



lemma val_unsign [simp]: "val (unsign a) = val a"
  by (cases a) auto








lemma jsle_trans: "jsle a b \<Longrightarrow> jsle b c \<Longrightarrow> jsle a c"
  by (cases a; cases b; cases c) auto




text \<open>
  On a list without NaN, \<open>jssort\<close> is a sort: its first element is the least and its
  last the greatest, which are \<open>lowest\<close> and \<open>highest\<close> up to the sign of a zero.
\<close>

lemma set_insort_js [simp]: "set (insort_js x xs) = insert x (set xs)"
  by (induction xs) auto

lemma length_insort_js [simp]: "length (insort_js x xs) = Suc (length xs)"
  by (induction xs) auto


lemma length_jssort [simp]: "length (jssort xs) = length xs"
  unfolding jssort_def by (induction xs) auto





lemma jsmin_cases: "a \<noteq> NaN \<Longrightarrow> b \<noteq> NaN \<Longrightarrow> jsmin a b = a \<or> jsmin a b = b"
  by (cases a; cases b) auto

lemma jsmax_cases: "a \<noteq> NaN \<Longrightarrow> b \<noteq> NaN \<Longrightarrow> jsmax a b = a \<or> jsmax a b = b"
  by (cases a; cases b) auto

lemma jsmin_le: "a \<noteq> NaN \<Longrightarrow> b \<noteq> NaN \<Longrightarrow> jsle (jsmin a b) a \<and> jsle (jsmin a b) b"
  by (cases a; cases b) auto

lemma jsmax_ge: "a \<noteq> NaN \<Longrightarrow> b \<noteq> NaN \<Longrightarrow> jsle a (jsmax a b) \<and> jsle b (jsmax a b)"
  by (cases a; cases b) auto

lemma jsmin_PInf [simp]: "a \<noteq> NaN \<Longrightarrow> jsmin a PInf = a"
  by (cases a) auto

lemma jsmax_NInf [simp]: "a \<noteq> NaN \<Longrightarrow> jsmax a NInf = a"
  by (cases a) auto

lemma lowest_bound:
  "NaN \<notin> set xs \<Longrightarrow> lowest xs \<noteq> NaN \<and> (\<forall>x\<in>set xs. jsle (lowest xs) x) \<and>
     (xs \<noteq> [] \<longrightarrow> lowest xs \<in> set xs)"
proof (induction xs)
  case Nil
  then show ?case by (simp add: lowest_def)
next
  case (Cons a xs)
  then have ih: "lowest xs \<noteq> NaN" "\<forall>x\<in>set xs. jsle (lowest xs) x"
    "xs \<noteq> [] \<longrightarrow> lowest xs \<in> set xs" and a: "a \<noteq> NaN" by auto
  have e: "lowest (a # xs) = jsmin a (lowest xs)" by (simp add: lowest_def)
  have c: "jsmin a (lowest xs) = a \<or> jsmin a (lowest xs) = lowest xs"
    using jsmin_cases [OF a ih(1)] .
  have l: "jsle (jsmin a (lowest xs)) a" "jsle (jsmin a (lowest xs)) (lowest xs)"
    using jsmin_le [OF a ih(1)] by auto
  have "lowest (a # xs) \<in> set (a # xs)"
  proof (cases "xs = []")
    case True
    then show ?thesis using a by (simp add: lowest_def)
  next
    case False
    then show ?thesis using c ih(3) e by auto
  qed
  moreover have "lowest (a # xs) \<noteq> NaN" using c a ih(1) e by auto
  moreover have "\<forall>x\<in>set (a # xs). jsle (lowest (a # xs)) x"
    using l ih(2) e by (auto intro: jsle_trans)
  ultimately show ?case by simp
qed

lemma highest_bound:
  "NaN \<notin> set xs \<Longrightarrow> highest xs \<noteq> NaN \<and> (\<forall>x\<in>set xs. jsle x (highest xs)) \<and>
     (xs \<noteq> [] \<longrightarrow> highest xs \<in> set xs)"
proof (induction xs)
  case Nil
  then show ?case by (simp add: highest_def)
next
  case (Cons a xs)
  then have ih: "highest xs \<noteq> NaN" "\<forall>x\<in>set xs. jsle x (highest xs)"
    "xs \<noteq> [] \<longrightarrow> highest xs \<in> set xs" and a: "a \<noteq> NaN" by auto
  have e: "highest (a # xs) = jsmax a (highest xs)" by (simp add: highest_def)
  have c: "jsmax a (highest xs) = a \<or> jsmax a (highest xs) = highest xs"
    using jsmax_cases [OF a ih(1)] .
  have l: "jsle a (jsmax a (highest xs))" "jsle (highest xs) (jsmax a (highest xs))"
    using jsmax_ge [OF a ih(1)] by auto
  have "highest (a # xs) \<in> set (a # xs)"
  proof (cases "xs = []")
    case True
    then show ?thesis using a by (simp add: highest_def)
  next
    case False
    then show ?thesis using c ih(3) e by auto
  qed
  moreover have "highest (a # xs) \<noteq> NaN" using c a ih(1) e by auto
  moreover have "\<forall>x\<in>set (a # xs). jsle x (highest (a # xs))"
    using l ih(2) e by (auto intro: jsle_trans)
  ultimately show ?case by simp
qed



lemma lowest_le_highest:
  assumes "xs \<noteq> []" "NaN \<notin> set xs"
  shows "jsle (lowest xs) (highest xs)"
  using lowest_bound [OF assms(2)] highest_bound [OF assms(2)] assms(1) by auto

section \<open>Unit detection and validation: the tables\<close>

lemma jsnum_compare_Fin [simp]:
  "jsgt (Fin a) (Fin b) = (b < a)" "jsge (Fin a) (Fin b) = (b \<le> a)"
  by (simp_all add: jsgt_def jsge_def)

text \<open>
  C1. For every finite non-negative maximum dimension \<open>d\<close>, \<open>detectUnit\<close> returns the unit
  label "mm" and the multiplier and confidence of the table: below 0.5 the multiplier
  1000 with high confidence; from 0.5 to below 5 the multiplier 1000 with medium
  confidence; from 5 to below 50 the multiplier 10 with medium confidence; from 50 to
  500 inclusive the multiplier 1 with high confidence; above 500 the multiplier 0.1
  with low confidence.
\<close>

theorem detectUnit_table:
  "0 \<le> d \<Longrightarrow>
     unit (detectUnit (Fin d)) = ''mm'' \<and>
     (d < 0.5 \<longrightarrow>
        multiplier (detectUnit (Fin d)) = 1000 \<and>
        confidence (detectUnit (Fin d)) = High_metre_detected \<and>
        level (confidence (detectUnit (Fin d))) = High) \<and>
     (0.5 \<le> d \<and> d < 5 \<longrightarrow>
        multiplier (detectUnit (Fin d)) = 1000 \<and>
        confidence (detectUnit (Fin d)) = Medium_metre_assumed \<and>
        level (confidence (detectUnit (Fin d))) = Medium) \<and>
     (5 \<le> d \<and> d < 50 \<longrightarrow>
        multiplier (detectUnit (Fin d)) = 10 \<and>
        confidence (detectUnit (Fin d)) = Medium_cm_assumed \<and>
        level (confidence (detectUnit (Fin d))) = Medium) \<and>
     (50 \<le> d \<and> d \<le> 500 \<longrightarrow>
        multiplier (detectUnit (Fin d)) = 1 \<and>
        confidence (detectUnit (Fin d)) = High_mm_detected \<and>
        level (confidence (detectUnit (Fin d))) = High) \<and>
     (500 < d \<longrightarrow>
        multiplier (detectUnit (Fin d)) = 0.1 \<and>
        confidence (detectUnit (Fin d)) = Low_abnormal_size \<and>
        level (confidence (detectUnit (Fin d))) = Low)"
  by (simp add: detectUnit_def)

theorem detectUnit_table_witness:
  "(0::real) \<le> 0.3 \<and> (0::real) \<le> 2 \<and> (0::real) \<le> 20 \<and> (0::real) \<le> 200 \<and> (0::real) \<le> 800 \<and>
   multiplier (detectUnit (Fin 0.3)) = 1000 \<and> level (confidence (detectUnit (Fin 0.3))) = High \<and>
   multiplier (detectUnit (Fin 2)) = 1000 \<and> level (confidence (detectUnit (Fin 2))) = Medium \<and>
   multiplier (detectUnit (Fin 20)) = 10 \<and> level (confidence (detectUnit (Fin 20))) = Medium \<and>
   multiplier (detectUnit (Fin 200)) = 1 \<and> level (confidence (detectUnit (Fin 200))) = High \<and>
   multiplier (detectUnit (Fin 800)) = 0.1 \<and> level (confidence (detectUnit (Fin 800))) = Low \<and>
   unit (detectUnit (Fin 800)) = ''mm''"
  using detectUnit_table [of "0.3"] detectUnit_table [of 2] detectUnit_table [of 20]
    detectUnit_table [of 200] detectUnit_table [of 800]
  by simp

text \<open>
  C5. \<open>validateMeasurements\<close> accepts a triplet exactly when the length is a number in
  [50, 500], the width a number in [20, 200] and the height a number in [10, 150], all
  bounds inclusive; one dimension out of range rejects the triplet. So (50, 20, 10) and
  (500, 200, 150) are accepted, (49.9, 20, 10) and (500.1, 200, 150) are rejected, as
  reals and as the doubles of these literals.
\<close>

theorem validateMeasurements_ranges:
  "(validateMeasurements l w h \<longleftrightarrow>
      (\<exists>x y z. l = Fin x \<and> w = Fin y \<and> h = Fin z \<and>
         50 \<le> x \<and> x \<le> 500 \<and> 20 \<le> y \<and> y \<le> 200 \<and> 10 \<le> z \<and> z \<le> 150)) \<and>
   validateMeasurements (Fin 50) (Fin 20) (Fin 10) \<and>
   validateMeasurements (Fin 500) (Fin 200) (Fin 150) \<and>
   \<not> validateMeasurements (Fin 49.9) (Fin 20) (Fin 10) \<and>
   \<not> validateMeasurements (Fin 500.1) (Fin 200) (Fin 150) \<and>
   \<not> validateMeasurements (js 49.9) (Fin 20) (Fin 10) \<and>
   \<not> validateMeasurements (js 500.1) (Fin 200) (Fin 150)"
proof -
  have "validateMeasurements l w h \<longleftrightarrow>
      (\<exists>x y z. l = Fin x \<and> w = Fin y \<and> h = Fin z \<and>
         50 \<le> x \<and> x \<le> 500 \<and> 20 \<le> y \<and> y \<le> 200 \<and> 10 \<le> z \<and> z \<le> 150)"
    by (cases l; cases w; cases h) (auto simp: validateMeasurements_def jsge_def)
  moreover have "validateMeasurements (Fin 50) (Fin 20) (Fin 10)"
    "validateMeasurements (Fin 500) (Fin 200) (Fin 150)"
    "\<not> validateMeasurements (Fin 49.9) (Fin 20) (Fin 10)"
    "\<not> validateMeasurements (Fin 500.1) (Fin 200) (Fin 150)"
    by (simp_all add: validateMeasurements_def)
  moreover have "\<not> validateMeasurements (js 49.9) (Fin 20) (Fin 10)"
    "\<not> validateMeasurements (js 500.1) (Fin 200) (Fin 150)"
    by (simp_all add: validateMeasurements_def double_eval)
  ultimately show ?thesis by blast
qed

section \<open>Landmark estimators: what they measure\<close>





lemma NaN_free_map:
  "list_all (\<lambda>v. f v \<noteq> NaN) vs \<Longrightarrow> NaN \<notin> set (map f vs)"
  by (auto simp: list_all_iff)

lemma NaN_free_filter:
  "NaN \<notin> set (map f vs) \<Longrightarrow> NaN \<notin> set (map f (filter P vs))"
  by auto







section \<open>The fallback estimator\<close>












section \<open>Shape classification: the thresholds\<close>

lemma js_thresholds:
  "js 2.6 = Fin (5854679515581645 / 2251799813685248)"
  "js 2.2 = Fin (2476979795053773 / 1125899906842624)"
  "js 0.25 = Fin (1 / 4)"
  "js 0.18 = Fin (3242591731706757 / 18014398509481984)"
  by (simp_all add: double_eval)

lemma jslt_not_jsgt: "jslt r (Fin a) \<Longrightarrow> a \<le> b \<Longrightarrow> \<not> jsgt r (Fin b)"
  by (cases r) (auto simp: jsgt_def)

lemma wide_not_long: "jslt r (js 2.2) \<Longrightarrow> \<not> jsgt r (js 2.6)"
  unfolding js_thresholds by (erule jslt_not_jsgt) simp

lemma low_not_high: "jslt r (js 0.18) \<Longrightarrow> \<not> jsgt r (js 0.25)"
  unfolding js_thresholds by (erule jslt_not_jsgt) simp

lemma not_above_itself: "\<not> jsgt r r" "\<not> jslt r r"
  by (cases r; simp add: jsgt_def)+

lemma threshold_order: "\<not> jsgt (js 2.2) (js 2.6)" "\<not> jslt (js 2.6) (js 2.2)"
  "\<not> jsgt (js 0.18) (js 0.25)" "\<not> jslt (js 0.25) (js 0.18)"
  unfolding js_thresholds by (simp_all add: jsgt_def)

text \<open>
  C7. The classifier compares with strict inequalities: a length/width ratio above 2.6
  gives "Long Foot Type", one below 2.2 gives "Wide Foot Type", any other gives "Normal
  Foot Type"; a height/length ratio above 0.25 gives "High Arch", one below 0.18 gives
  "Low Arch / Flat Foot", any other gives "Normal Arch". The ratios are the quotients of
  doubles and the thresholds the doubles of the literals; a ratio equal to the double
  2.6, 2.2, 0.25 or 0.18 is in the normal branch. A falsy input (a zero, NaN, or a
  missing record in the scene manager's copy) gives the "Analysis Pending" result. The
  scene manager's copy classifies a record as the engine classifies its three
  dimensions.
\<close>

theorem analyzeFootType_thresholds:
  "(falsy l \<or> falsy w \<or> falsy h \<longrightarrow>
      analyzeFootType l w h =
        \<lparr>footType = ''Analysis Pending'', archType = ''Analysis Pending'',
         description = ''Insufficient data for comprehensive analysis''\<rparr>) \<and>
   (\<not> falsy l \<and> \<not> falsy w \<and> \<not> falsy h \<longrightarrow>
      (jsgt (jsdiv l w) (js 2.6) \<longrightarrow> footType (analyzeFootType l w h) = ''Long Foot Type'') \<and>
      (jslt (jsdiv l w) (js 2.2) \<longrightarrow> footType (analyzeFootType l w h) = ''Wide Foot Type'') \<and>
      (\<not> jsgt (jsdiv l w) (js 2.6) \<and> \<not> jslt (jsdiv l w) (js 2.2) \<longrightarrow>
         footType (analyzeFootType l w h) = ''Normal Foot Type'') \<and>
      (jsgt (jsdiv h l) (js 0.25) \<longrightarrow> archType (analyzeFootType l w h) = ''High Arch'') \<and>
      (jslt (jsdiv h l) (js 0.18) \<longrightarrow>
         archType (analyzeFootType l w h) = ''Low Arch / Flat Foot'') \<and>
      (\<not> jsgt (jsdiv h l) (js 0.25) \<and> \<not> jslt (jsdiv h l) (js 0.18) \<longrightarrow>
         archType (analyzeFootType l w h) = ''Normal Arch'') \<and>
      (jsdiv l w = js 2.6 \<or> jsdiv l w = js 2.2 \<longrightarrow>
         footType (analyzeFootType l w h) = ''Normal Foot Type'') \<and>
      (jsdiv h l = js 0.25 \<or> jsdiv h l = js 0.18 \<longrightarrow>
         archType (analyzeFootType l w h) = ''Normal Arch'')) \<and>
   sceneManager_analyzeFootType None =
     \<lparr>footType = ''Analysis Pending'', archType = ''Analysis Pending'',
      description = ''Insufficient data for comprehensive analysis''\<rparr> \<and>
   sceneManager_analyzeFootType (Some m) = analyzeFootType (m_length m) (m_width m) (m_height m)"
proof -
  have sm: "sceneManager_analyzeFootType None =
     \<lparr>footType = ''Analysis Pending'', archType = ''Analysis Pending'',
      description = ''Insufficient data for comprehensive analysis''\<rparr>"
    "sceneManager_analyzeFootType (Some m) = analyzeFootType (m_length m) (m_width m) (m_height m)"
    by (simp_all add: sceneManager_analyzeFootType_def analyzeFootType_def)
  show ?thesis
    using wide_not_long [of "jsdiv l w"] low_not_high [of "jsdiv h l"] sm threshold_order
      not_above_itself
    by (auto simp: analyzeFootType_def Let_def)
qed

theorem analyzeFootType_thresholds_witness:
  "\<not> falsy (Fin 260) \<and> \<not> falsy (Fin 100) \<and> \<not> falsy (Fin 65) \<and>
   jsdiv (Fin 260) (Fin 100) = js 2.6 \<and> jsdiv (Fin 65) (Fin 260) = js 0.25 \<and>
   footType (analyzeFootType (Fin 260) (Fin 100) (Fin 65)) = ''Normal Foot Type'' \<and>
   archType (analyzeFootType (Fin 260) (Fin 100) (Fin 65)) = ''Normal Arch'' \<and>
   \<not> falsy (js 54.6) \<and> jsdiv (js 54.6) (Fin 21) = js 2.6 \<and>
   footType (analyzeFootType (js 54.6) (Fin 21) (Fin 12)) = ''Normal Foot Type'' \<and>
   jsgt (jsdiv (Fin 261) (Fin 100)) (js 2.6) \<and>
   footType (analyzeFootType (Fin 261) (Fin 100) (Fin 65)) = ''Long Foot Type'' \<and>
   jslt (jsdiv (Fin 219) (Fin 100)) (js 2.2) \<and>
   footType (analyzeFootType (Fin 219) (Fin 100) (Fin 65)) = ''Wide Foot Type'' \<and>
   jsgt (jsdiv (Fin 66) (Fin 260)) (js 0.25) \<and>
   archType (analyzeFootType (Fin 260) (Fin 100) (Fin 66)) = ''High Arch'' \<and>
   jslt (jsdiv (Fin 46) (Fin 260)) (js 0.18) \<and>
   archType (analyzeFootType (Fin 260) (Fin 100) (Fin 46)) = ''Low Arch / Flat Foot'' \<and>
   falsy (Fin 0) \<and> footType (analyzeFootType (Fin 0) (Fin 100) (Fin 65)) = ''Analysis Pending'' \<and>
   falsy NZero \<and> footType (analyzeFootType (Fin 260) NZero (Fin 65)) = ''Analysis Pending'' \<and>
   falsy NaN \<and> archType (analyzeFootType (Fin 260) (Fin 100) NaN) = ''Analysis Pending''"
  using analyzeFootType_thresholds [of "Fin 260" "Fin 100" "Fin 65" m]
    analyzeFootType_thresholds [of "js 54.6" "Fin 21" "Fin 12" m]
    analyzeFootType_thresholds [of "Fin 261" "Fin 100" "Fin 65" m]
    analyzeFootType_thresholds [of "Fin 219" "Fin 100" "Fin 65" m]
    analyzeFootType_thresholds [of "Fin 260" "Fin 100" "Fin 66" m]
    analyzeFootType_thresholds [of "Fin 260" "Fin 100" "Fin 46" m]
    analyzeFootType_thresholds [of "Fin 0" "Fin 100" "Fin 65" m]
    analyzeFootType_thresholds [of "Fin 260" NZero "Fin 65" m]
    analyzeFootType_thresholds [of "Fin 260" "Fin 100" NaN m]
  by (simp add: double_eval)

section \<open>Bilateral comparison: the symmetry score\<close>

lemma round_to_not_NaN [simp]: "round_to neg x \<noteq> NaN"
  by (simp add: round_to_def Let_def)

lemma signed_not_NaN [simp]: "signed_zero neg \<noteq> NaN" "signed_inf neg \<noteq> NaN"
  by (simp_all add: signed_zero_def signed_inf_def)

lemma jssub_Fin_not_NaN: "jssub (Fin a) (Fin b) \<noteq> NaN"
  by (simp add: jssub_def Let_def)

lemma jsabs_not_NaN: "x \<noteq> NaN \<Longrightarrow> jsabs x \<noteq> NaN"
  by (cases x) simp_all

lemma jsmax_Fin: "jsmax (Fin a) (Fin b) = Fin (max a b)"
  by (simp add: max_def)

lemma jsdiv_not_NaN: "d \<noteq> NaN \<Longrightarrow> c \<noteq> 0 \<Longrightarrow> jsdiv d (Fin c) \<noteq> NaN"
  by (cases d) simp_all

lemma one_minus_not_NaN: "q \<noteq> NaN \<Longrightarrow> jssub (Fin 1) q \<noteq> NaN"
  by (cases q) (simp_all add: jssub_def Let_def)

lemma times_100_not_NaN: "x \<noteq> NaN \<Longrightarrow> jsmul x (Fin 100) \<noteq> NaN"
  by (cases x) simp_all

lemma axis_symmetry_not_NaN:
  "max a b \<noteq> 0 \<Longrightarrow>
   jsmul (jssub (Fin 1) (jsdiv (jsabs (jssub (Fin a) (Fin b))) (jsmax (Fin a) (Fin b)))) (Fin 100)
     \<noteq> NaN"
  unfolding jsmax_Fin
  by (intro times_100_not_NaN one_minus_not_NaN jsdiv_not_NaN jsabs_not_NaN jssub_Fin_not_NaN)

lemma zero_over_zero: "is_zero a \<Longrightarrow> is_zero b \<Longrightarrow>
   jsmul (jssub (Fin 1) (jsdiv (jsabs (jssub a b)) (jsmax a b))) (Fin 100) = NaN"
  by (cases a; cases b) (simp_all add: jssub_def signed_zero_def)

lemma equal_axis:
  "a \<noteq> 0 \<Longrightarrow> jsabs (jssub (Fin a) (Fin a)) = Fin 0 \<and>
   jsmul (jssub (Fin 1) (jsdiv (jsabs (jssub (Fin a) (Fin a))) (jsmax (Fin a) (Fin a)))) (Fin 100)
     = Fin 100"
  by (simp add: double_eval)

lemma mean_of_hundreds:
  "jsround (jsdiv (jsadd (jsadd (Fin 100) (Fin 100)) (Fin 100)) (Fin 3)) = Fin 100"
  by (simp add: double_eval)

lemma jsround_nearest: "\<bar>val (jsround (Fin x)) - x\<bar> \<le> 1 / 2"
proof (cases "x < 0 \<and> - (1 / 2) \<le> x")
  case True
  then show ?thesis by simp
next
  case False
  then have "val (jsround (Fin x)) = of_int \<lfloor>x + 1 / 2\<rfloor>" by auto
  then show ?thesis by linarith
qed

lemma jsround_integer: "\<exists>n. val (jsround (Fin x)) = of_int n"
proof (cases "x < 0 \<and> - (1 / 2) \<le> x")
  case True
  then have "val (jsround (Fin x)) = of_int 0" by simp
  then show ?thesis by blast
next
  case False
  then have "val (jsround (Fin x)) = of_int \<lfloor>x + 1 / 2\<rfloor>" by auto
  then show ?thesis by blast
qed

text \<open>
  C9. The comparison computes on each axis \<open>diff = Math.abs(left - right)\<close> and the
  axis symmetry \<open>(1 - diff / Math.max(left, right)) * 100\<close>, and the overall score is
  \<open>Math.round\<close> of the mean of the three axis symmetries, all in the arithmetic of
  doubles; when the mean is finite the score is an integer at most one half away from
  it. For finite values whose larger one is not zero the axis symmetry is not NaN. For
  two records with equal finite non-zero dimensions every diff is 0 and the score is
  100. Nothing guards a zero maximum: when both values of an axis are zero the division
  is \<open>0 / 0\<close>, and the symmetry of that axis and the overall score are NaN.
  \<open>updateComparisonData\<close> computes the same numbers as \<open>addComparisonSection\<close>.
\<close>

theorem comparison_symmetry:
  "lengthDiff (addComparisonSection l r) = jsabs (jssub (m_length l) (m_length r)) \<and>
   widthDiff (addComparisonSection l r) = jsabs (jssub (m_width l) (m_width r)) \<and>
   heightDiff (addComparisonSection l r) = jsabs (jssub (m_height l) (m_height r)) \<and>
   lengthSymmetry (addComparisonSection l r) =
     jsmul (jssub (Fin 1) (jsdiv (jsabs (jssub (m_length l) (m_length r)))
        (jsmax (m_length l) (m_length r)))) (Fin 100) \<and>
   widthSymmetry (addComparisonSection l r) =
     jsmul (jssub (Fin 1) (jsdiv (jsabs (jssub (m_width l) (m_width r)))
        (jsmax (m_width l) (m_width r)))) (Fin 100) \<and>
   heightSymmetry (addComparisonSection l r) =
     jsmul (jssub (Fin 1) (jsdiv (jsabs (jssub (m_height l) (m_height r)))
        (jsmax (m_height l) (m_height r)))) (Fin 100) \<and>
   overallSymmetry (addComparisonSection l r) =
     jsround (jsdiv (jsadd (jsadd (lengthSymmetry (addComparisonSection l r))
        (widthSymmetry (addComparisonSection l r))) (heightSymmetry (addComparisonSection l r)))
        (Fin 3)) \<and>
   (\<forall>mean. jsdiv (jsadd (jsadd (lengthSymmetry (addComparisonSection l r))
        (widthSymmetry (addComparisonSection l r))) (heightSymmetry (addComparisonSection l r)))
        (Fin 3) = Fin mean \<longrightarrow>
      (\<exists>n. val (overallSymmetry (addComparisonSection l r)) = of_int n) \<and>
      \<bar>val (overallSymmetry (addComparisonSection l r)) - mean\<bar> \<le> 1 / 2) \<and>
   (m_length l = Fin a \<and> m_length r = Fin a' \<and> max a a' \<noteq> 0 \<longrightarrow>
      lengthSymmetry (addComparisonSection l r) \<noteq> NaN) \<and>
   (m_width l = Fin b \<and> m_width r = Fin b' \<and> max b b' \<noteq> 0 \<longrightarrow>
      widthSymmetry (addComparisonSection l r) \<noteq> NaN) \<and>
   (m_height l = Fin c \<and> m_height r = Fin c' \<and> max c c' \<noteq> 0 \<longrightarrow>
      heightSymmetry (addComparisonSection l r) \<noteq> NaN) \<and>
   (m_length l = Fin a \<and> m_length r = Fin a \<and> a \<noteq> 0 \<and>
    m_width l = Fin b \<and> m_width r = Fin b \<and> b \<noteq> 0 \<and>
    m_height l = Fin c \<and> m_height r = Fin c \<and> c \<noteq> 0 \<longrightarrow>
      lengthDiff (addComparisonSection l r) = Fin 0 \<and>
      widthDiff (addComparisonSection l r) = Fin 0 \<and>
      heightDiff (addComparisonSection l r) = Fin 0 \<and>
      overallSymmetry (addComparisonSection l r) = Fin 100) \<and>
   (is_zero (m_length l) \<and> is_zero (m_length r) \<longrightarrow>
      lengthSymmetry (addComparisonSection l r) = NaN \<and>
      overallSymmetry (addComparisonSection l r) = NaN) \<and>
   (is_zero (m_width l) \<and> is_zero (m_width r) \<longrightarrow>
      widthSymmetry (addComparisonSection l r) = NaN \<and>
      overallSymmetry (addComparisonSection l r) = NaN) \<and>
   (is_zero (m_height l) \<and> is_zero (m_height r) \<longrightarrow>
      heightSymmetry (addComparisonSection l r) = NaN \<and>
      overallSymmetry (addComparisonSection l r) = NaN) \<and>
   updateComparisonData (Some l) (Some r) = Some (addComparisonSection l r)"
proof -
  define ls where "ls = jsmul (jssub (Fin 1) (jsdiv (jsabs (jssub (m_length l) (m_length r)))
        (jsmax (m_length l) (m_length r)))) (Fin 100)"
  define ws where "ws = jsmul (jssub (Fin 1) (jsdiv (jsabs (jssub (m_width l) (m_width r)))
        (jsmax (m_width l) (m_width r)))) (Fin 100)"
  define hs where "hs = jsmul (jssub (Fin 1) (jsdiv (jsabs (jssub (m_height l) (m_height r)))
        (jsmax (m_height l) (m_height r)))) (Fin 100)"
  have cmp: "addComparisonSection l r =
      \<lparr>lengthDiff = jsabs (jssub (m_length l) (m_length r)),
       widthDiff = jsabs (jssub (m_width l) (m_width r)),
       heightDiff = jsabs (jssub (m_height l) (m_height r)),
       lengthSymmetry = ls, widthSymmetry = ws, heightSymmetry = hs,
       overallSymmetry = jsround (jsdiv (jsadd (jsadd ls ws) hs) (Fin 3))\<rparr>"
    by (simp add: addComparisonSection_def Let_def ls_def ws_def hs_def)
  have upd: "updateComparisonData (Some l) (Some r) = Some (addComparisonSection l r)"
    by (simp add: updateComparisonData_def addComparisonSection_def Let_def)
  have rounded: "(\<exists>n. val (jsround (jsdiv (jsadd (jsadd ls ws) hs) (Fin 3))) = of_int n) \<and>
      \<bar>val (jsround (jsdiv (jsadd (jsadd ls ws) hs) (Fin 3))) - mean\<bar> \<le> 1 / 2"
    if "jsdiv (jsadd (jsadd ls ws) hs) (Fin 3) = Fin mean" for mean
    unfolding that using jsround_nearest [of mean] jsround_integer [of mean] by blast
  have nl: "ls \<noteq> NaN" if "m_length l = Fin a \<and> m_length r = Fin a' \<and> max a a' \<noteq> 0"
    using that axis_symmetry_not_NaN [of a a'] by (simp add: ls_def)
  have nw: "ws \<noteq> NaN" if "m_width l = Fin b \<and> m_width r = Fin b' \<and> max b b' \<noteq> 0"
    using that axis_symmetry_not_NaN [of b b'] by (simp add: ws_def)
  have nh: "hs \<noteq> NaN" if "m_height l = Fin c \<and> m_height r = Fin c' \<and> max c c' \<noteq> 0"
    using that axis_symmetry_not_NaN [of c c'] by (simp add: hs_def)
  have axis: "jsabs (jssub x y) = Fin 0 \<and>
      jsmul (jssub (Fin 1) (jsdiv (jsabs (jssub x y)) (jsmax x y))) (Fin 100) = Fin 100"
    if "x = Fin d" "y = Fin d" "d \<noteq> 0" for x y d
    unfolding that(1,2) using that(3) by (rule equal_axis)
  have same: "jsabs (jssub (m_length l) (m_length r)) = Fin 0 \<and>
      jsabs (jssub (m_width l) (m_width r)) = Fin 0 \<and>
      jsabs (jssub (m_height l) (m_height r)) = Fin 0 \<and>
      jsround (jsdiv (jsadd (jsadd ls ws) hs) (Fin 3)) = Fin 100"
    if h: "m_length l = Fin a \<and> m_length r = Fin a \<and> a \<noteq> 0 \<and>
        m_width l = Fin b \<and> m_width r = Fin b \<and> b \<noteq> 0 \<and>
        m_height l = Fin c \<and> m_height r = Fin c \<and> c \<noteq> 0"
  proof -
    have la: "jsabs (jssub (m_length l) (m_length r)) = Fin 0 \<and> ls = Fin 100"
      unfolding ls_def using h by (intro axis [of _ a]) simp_all
    have wa: "jsabs (jssub (m_width l) (m_width r)) = Fin 0 \<and> ws = Fin 100"
      unfolding ws_def using h by (intro axis [of _ b]) simp_all
    have ha: "jsabs (jssub (m_height l) (m_height r)) = Fin 0 \<and> hs = Fin 100"
      unfolding hs_def using h by (intro axis [of _ c]) simp_all
    show ?thesis
      using la wa ha mean_of_hundreds by (simp only: simp_thms)
  qed
  have zl: "ls = NaN \<and> jsround (jsdiv (jsadd (jsadd ls ws) hs) (Fin 3)) = NaN"
    if "is_zero (m_length l) \<and> is_zero (m_length r)"
    using that zero_over_zero [of "m_length l" "m_length r"] by (simp add: ls_def)
  have zw: "ws = NaN \<and> jsround (jsdiv (jsadd (jsadd ls ws) hs) (Fin 3)) = NaN"
    if "is_zero (m_width l) \<and> is_zero (m_width r)"
    using that zero_over_zero [of "m_width l" "m_width r"] by (cases ls) (simp_all add: ws_def)
  have zh: "hs = NaN \<and> jsround (jsdiv (jsadd (jsadd ls ws) hs) (Fin 3)) = NaN"
    if "is_zero (m_height l) \<and> is_zero (m_height r)"
    using that zero_over_zero [of "m_height l" "m_height r"]
    by (cases "jsadd ls ws") (simp_all add: hs_def)
  have sel: "lengthDiff (addComparisonSection l r) = jsabs (jssub (m_length l) (m_length r))"
    "widthDiff (addComparisonSection l r) = jsabs (jssub (m_width l) (m_width r))"
    "heightDiff (addComparisonSection l r) = jsabs (jssub (m_height l) (m_height r))"
    "lengthSymmetry (addComparisonSection l r) = ls"
    "widthSymmetry (addComparisonSection l r) = ws"
    "heightSymmetry (addComparisonSection l r) = hs"
    "overallSymmetry (addComparisonSection l r) = jsround (jsdiv (jsadd (jsadd ls ws) hs) (Fin 3))"
    by (simp_all add: cmp)
  show ?thesis
    unfolding sel upd
    unfolding ls_def [symmetric] ws_def [symmetric] hs_def [symmetric]
    using rounded nl nw nh same zl zw zh by blast
qed

theorem comparison_symmetry_witness:
  "m_length (dimensions 250 100 65) = Fin 250 \<and> (250::real) \<noteq> 0 \<and>
   m_width (dimensions 250 100 65) = Fin 100 \<and> (100::real) \<noteq> 0 \<and>
   m_height (dimensions 250 100 65) = Fin 65 \<and> (65::real) \<noteq> 0 \<and>
   max (250::real) 250 \<noteq> 0 \<and>
   lengthDiff (addComparisonSection (dimensions 250 100 65) (dimensions 250 100 65)) = Fin 0 \<and>
   widthDiff (addComparisonSection (dimensions 250 100 65) (dimensions 250 100 65)) = Fin 0 \<and>
   heightDiff (addComparisonSection (dimensions 250 100 65) (dimensions 250 100 65)) = Fin 0 \<and>
   overallSymmetry (addComparisonSection (dimensions 250 100 65) (dimensions 250 100 65)) = Fin 100 \<and>
   lengthSymmetry (addComparisonSection (dimensions 250 100 65) (dimensions 250 100 65)) \<noteq> NaN \<and>
   max (260::real) 240 \<noteq> 0 \<and>
   lengthDiff (addComparisonSection (dimensions 260 100 65) (dimensions 240 100 65)) = Fin 20 \<and>
   overallSymmetry (addComparisonSection (dimensions 260 100 65) (dimensions 240 100 65)) = Fin 97 \<and>
   updateComparisonData (Some (dimensions 260 100 65)) (Some (dimensions 240 100 65)) =
     Some (addComparisonSection (dimensions 260 100 65) (dimensions 240 100 65)) \<and>
   jsdiv (jsadd (jsadd (lengthSymmetry (addComparisonSection (dimensions 100 40 65) (dimensions 66 23 65)))
        (widthSymmetry (addComparisonSection (dimensions 100 40 65) (dimensions 66 23 65))))
        (heightSymmetry (addComparisonSection (dimensions 100 40 65) (dimensions 66 23 65)))) (Fin 3)
     = js 74.49999999999999 \<and>
   overallSymmetry (addComparisonSection (dimensions 100 40 65) (dimensions 66 23 65)) = Fin 74 \<and>
   is_zero (m_length (dimensions 0 100 65)) \<and>
   lengthSymmetry (addComparisonSection (dimensions 0 100 65) (dimensions 0 100 65)) = NaN \<and>
   is_zero (m_width (dimensions 250 0 65)) \<and>
   widthSymmetry (addComparisonSection (dimensions 250 0 65) (dimensions 250 0 65)) = NaN \<and>
   is_zero (m_height (dimensions 250 100 0)) \<and>
   heightSymmetry (addComparisonSection (dimensions 250 100 0) (dimensions 250 100 0)) = NaN \<and>
   overallSymmetry (addComparisonSection (dimensions 250 100 0) (dimensions 250 100 0)) = NaN"
  using comparison_symmetry [of "dimensions 250 100 65" "dimensions 250 100 65" 250 250 100 100 65 65]
    comparison_symmetry [of "dimensions 260 100 65" "dimensions 240 100 65" 260 240 100 100 65 65]
    comparison_symmetry [of "dimensions 100 40 65" "dimensions 66 23 65" 100 66 40 23 65 65]
    comparison_symmetry [of "dimensions 0 100 65" "dimensions 0 100 65" 0 0 100 100 65 65]
    comparison_symmetry [of "dimensions 250 0 65" "dimensions 250 0 65" 250 250 0 0 65 65]
    comparison_symmetry [of "dimensions 250 100 0" "dimensions 250 100 0" 250 250 100 100 0 0]
  by (simp add: dimensions_def double_eval)

text \<open>
  The claim as the specification states it fails for two equal records of length 0: the
  length symmetry is NaN, not 0, and the score is NaN, not 100.
\<close>

theorem comparison_zero_max_counterexample:
  "lengthSymmetry (addComparisonSection (dimensions 0 100 65) (dimensions 0 100 65)) = NaN \<and>
   lengthSymmetry (addComparisonSection (dimensions 0 100 65) (dimensions 0 100 65)) \<noteq> Fin 0 \<and>
   overallSymmetry (addComparisonSection (dimensions 0 100 65) (dimensions 0 100 65)) = NaN \<and>
   overallSymmetry (addComparisonSection (dimensions 0 100 65) (dimensions 0 100 65)) \<noteq> Fin 100 \<and>
   updateComparisonData (Some (dimensions 0 100 65)) (Some (dimensions 0 100 65)) =
     Some (addComparisonSection (dimensions 0 100 65) (dimensions 0 100 65))"
  by (simp add: addComparisonSection_def updateComparisonData_def dimensions_def double_eval)

section \<open>The engine: invalid and empty input\<close>

lemma empty_fallback:
  "performFallbackMeasurement \<lparr>position = Some (BufferAttribute [])\<rparr> currentModel =
     Inr \<lparr>measurements =
            \<lparr>m_length = Fin 50, m_width = Fin 30, m_height = Fin 20, m_unit = ''mm'',
             m_confidence = Low_fallback_mode, originalVertices = [],
             boundingBox = Box3 (Vector3 PInf PInf PInf) (Vector3 NInf NInf NInf),
             vertexCount = 0\<rparr>,
          analysis = analyzeFootType (Fin 50) (Fin 30) (Fin 20)\<rparr>"
  by (simp add: performFallbackMeasurement_def computeBoundingBox_def setFromBufferAttribute_def
      makeEmpty_def getSize_def isEmpty_def double_eval)

lemma floor_analysis:
  "analyzeFootType (Fin 50) (Fin 30) (Fin 20) =
     \<lparr>footType = ''Wide Foot Type'', archType = ''High Arch'',
      description = ''Broader foot shape with wider forefoot area''\<rparr>"
  by (simp add: analyzeFootType_def double_eval)

text \<open>
  C8. For a missing geometry or a geometry without a position attribute,
  \<open>performPreciseMeasurements\<close> returns no record and dispatches one event, the start
  event with the invalid-data status. For a position buffer that is present and empty it
  dispatches the ordinary start event, takes the fallback path, returns the fallback
  record of 50, 30 and 20 mm and dispatches the completion event. In each of the three
  cases the call returns. For a position attribute that has no array the call throws
  before it dispatches anything.
\<close>

theorem performPreciseMeasurements_missing_or_empty:
  "performPreciseMeasurements this None currentModel =
     Inr (None, this\<lparr>dispatched := dispatched this @ [MeasurementStarted Error_invalid_3d_data]\<rparr>) \<and>
   performPreciseMeasurements this (Some \<lparr>position = None\<rparr>) currentModel =
     Inr (None, this\<lparr>dispatched := dispatched this @ [MeasurementStarted Error_invalid_3d_data]\<rparr>) \<and>
   (let m = \<lparr>m_length = Fin 50, m_width = Fin 30, m_height = Fin 20, m_unit = ''mm'',
              m_confidence = Low_fallback_mode, originalVertices = [],
              boundingBox = Box3 (Vector3 PInf PInf PInf) (Vector3 NInf NInf NInf),
              vertexCount = 0\<rparr>
    in performPreciseMeasurements this (Some \<lparr>position = Some (BufferAttribute [])\<rparr>)
         currentModel =
       Inr (Some m, this\<lparr>dispatched := dispatched this @
              [MeasurementStarted Analysing_foot_structure,
               MeasurementComplete m
                 \<lparr>footType = ''Wide Foot Type'', archType = ''High Arch'',
                  description = ''Broader foot shape with wider forefoot area''\<rparr>
                 Done_fallback_mode Low_fallback]\<rparr>)) \<and>
   performPreciseMeasurements this (Some \<lparr>position = Some (GLBufferAttribute n)\<rparr>)
     currentModel = Inl TypeError"
proof (intro conjI)
  show "performPreciseMeasurements this None currentModel =
     Inr (None, this\<lparr>dispatched := dispatched this @ [MeasurementStarted Error_invalid_3d_data]\<rparr>)"
    by (simp add: performPreciseMeasurements_def dispatchEvent_def)
  show "performPreciseMeasurements this (Some \<lparr>position = None\<rparr>) currentModel =
     Inr (None, this\<lparr>dispatched := dispatched this @ [MeasurementStarted Error_invalid_3d_data]\<rparr>)"
    by (simp add: performPreciseMeasurements_def dispatchEvent_def)
  show "let m = \<lparr>m_length = Fin 50, m_width = Fin 30, m_height = Fin 20, m_unit = ''mm'',
              m_confidence = Low_fallback_mode, originalVertices = [],
              boundingBox = Box3 (Vector3 PInf PInf PInf) (Vector3 NInf NInf NInf),
              vertexCount = 0\<rparr>
    in performPreciseMeasurements this (Some \<lparr>position = Some (BufferAttribute [])\<rparr>)
         currentModel =
       Inr (Some m, this\<lparr>dispatched := dispatched this @
              [MeasurementStarted Analysing_foot_structure,
               MeasurementComplete m
                 \<lparr>footType = ''Wide Foot Type'', archType = ''High Arch'',
                  description = ''Broader foot shape with wider forefoot area''\<rparr>
                 Done_fallback_mode Low_fallback]\<rparr>)"
    by (simp add: performPreciseMeasurements_def performPreciseMeasurements_try_def
        empty_fallback floor_analysis dispatchEvent_def Let_def)
  show "performPreciseMeasurements this (Some \<lparr>position = Some (GLBufferAttribute n)\<rparr>)
     currentModel = Inl TypeError"
    by (simp add: performPreciseMeasurements_def)
qed

text \<open>
  The claim as the specification states it fails for the empty buffer: the call returns
  a record, and its two events are the ordinary start and the completion.
\<close>

theorem performPreciseMeasurements_empty_counterexample:
  "performPreciseMeasurements constructor (Some \<lparr>position = Some (BufferAttribute [])\<rparr>) None =
     Inr (Some \<lparr>m_length = Fin 50, m_width = Fin 30, m_height = Fin 20, m_unit = ''mm'',
                m_confidence = Low_fallback_mode, originalVertices = [],
                boundingBox = Box3 (Vector3 PInf PInf PInf) (Vector3 NInf NInf NInf),
                vertexCount = 0\<rparr>,
          \<lparr>footMeasurements = None, dispatched =
             [MeasurementStarted Analysing_foot_structure,
              MeasurementComplete
                \<lparr>m_length = Fin 50, m_width = Fin 30, m_height = Fin 20, m_unit = ''mm'',
                 m_confidence = Low_fallback_mode, originalVertices = [],
                 boundingBox = Box3 (Vector3 PInf PInf PInf) (Vector3 NInf NInf NInf),
                 vertexCount = 0\<rparr>
                \<lparr>footType = ''Wide Foot Type'', archType = ''High Arch'',
                 description = ''Broader foot shape with wider forefoot area''\<rparr>
                Done_fallback_mode Low_fallback]\<rparr>) \<and>
   (\<forall>this'. performPreciseMeasurements constructor
       (Some \<lparr>position = Some (BufferAttribute [])\<rparr>) None \<noteq> Inr (None, this'))"
  by (simp add: performPreciseMeasurements_def performPreciseMeasurements_try_def
      empty_fallback floor_analysis dispatchEvent_def constructor_def Let_def)

section \<open>The engine: the stored record\<close>

text \<open>
  In general: a call whose \<open>try\<close> block returns stores the record it returns, and a call
  whose \<open>try\<close> block throws returns the fallback record and leaves the stored record as
  it was before the call.
\<close>

lemma performFallbackMeasurement_Inr:
  "position geometry = Some attribute \<Longrightarrow>
   \<exists>r. performFallbackMeasurement geometry currentModel = Inr r"
  by (simp add: performFallbackMeasurement_def Let_def split: prod.splits)

lemma validated_path_stores:
  assumes "performPreciseMeasurements_try
             (dispatchEvent this (MeasurementStarted Analysing_foot_structure)) ps currentModel
           = Inr (m, this')"
  shows "performPreciseMeasurements this (Some \<lparr>position = Some (BufferAttribute ps)\<rparr>)
           currentModel = Inr (Some m, this') \<and> footMeasurements this' = Some m"
  using assms
  by (auto simp: performPreciseMeasurements_def performPreciseMeasurements_try_def Let_def
      dispatchEvent_def split: if_splits)

lemma fallback_path_keeps_stored:
  assumes "performPreciseMeasurements_try
             (dispatchEvent this (MeasurementStarted Analysing_foot_structure)) ps currentModel
           = Inl (err, this')"
  shows "\<exists>r. performFallbackMeasurement \<lparr>position = Some (BufferAttribute ps)\<rparr> currentModel
             = Inr r \<and>
           performPreciseMeasurements this (Some \<lparr>position = Some (BufferAttribute ps)\<rparr>)
             currentModel
             = Inr (Some (measurements r),
                    dispatchEvent this'
                      (MeasurementComplete (measurements r) (analysis r)
                         Done_fallback_mode Low_fallback)) \<and>
           footMeasurements this' = footMeasurements this"
proof -
  obtain r where r:
    "performFallbackMeasurement \<lparr>position = Some (BufferAttribute ps)\<rparr> currentModel = Inr r"
    using performFallbackMeasurement_Inr
      [of "\<lparr>position = Some (BufferAttribute ps)\<rparr>" "BufferAttribute ps" currentModel]
    by auto
  have "footMeasurements this' = footMeasurements this"
    using assms
    by (auto simp: performPreciseMeasurements_try_def Let_def dispatchEvent_def
        split: if_splits)
  then show ?thesis
    using assms r by (simp add: performPreciseMeasurements_def Let_def)
qed

lemma scan_measures:
  "measureFootLength (Some scan) bbox = Fin 190"
  "measureFootWidth (Some scan) bbox = Fin 100"
  "measureFootHeight (Some scan) bbox = Fin 60"
  by (simp_all add: measureFootLength_def measureFootWidth_def measureFootHeight_def
      scan_def vertex_def jssort_def double_eval)

lemma scan_box:
  "setFromPoints scan = Box3 (vertex 0 0 0) (vertex 100 60 260)"
  "getSize (Box3 (vertex 0 0 0) (vertex 100 60 260)) = Vector3 (Fin 100) (Fin 60) (Fin 260)"
  by (simp_all add: setFromPoints_def makeEmpty_def getSize_def isEmpty_def scan_def vertex_def
      double_eval)

lemma scan_unit:
  "detectUnit (Fin 260) = \<lparr>multiplier = 1, unit = ''mm'', confidence = High_mm_detected\<rparr>"
  by (simp add: detectUnit_def)

lemma scan_scaled:
  "jsmul (Fin 190) (js 1) = Fin 190" "jsmul (Fin 100) (js 1) = Fin 100"
  "jsmul (Fin 60) (js 1) = Fin 60"
  by (simp_all add: double_eval)

lemma scan_valid: "validateMeasurements (Fin 190) (Fin 100) (Fin 60)"
  by (simp add: validateMeasurements_def)

lemma scan_try:
  "performPreciseMeasurements_try this scan None =
     Inr (scanRecord,
          this\<lparr>footMeasurements := Some scanRecord,
               dispatched := dispatched this @
                 [MeasurementProgress Precise_measurement_running,
                  MeasurementComplete scanRecord (analyzeFootType (Fin 190) (Fin 100) (Fin 60))
                    Done_precision_verified High_mm_detected]\<rparr>)"
proof -
  have len: "length scan = 6" by (simp add: scan_def)
  show ?thesis
    by (simp add: performPreciseMeasurements_try_def Let_def len scan_box scan_unit
        scan_measures scan_scaled scan_valid dispatchEvent_def scanRecord_def)
qed

lemma point_measures:
  "measureFootLength (Some [vertex 0 0 0]) bbox = Fin 0"
  "measureFootWidth (Some [vertex 0 0 0]) bbox = Fin 0"
  "measureFootHeight (Some [vertex 0 0 0]) bbox = Fin 0"
  by (simp_all add: measureFootLength_def measureFootWidth_def measureFootHeight_def
      vertex_def jssort_def double_eval)

lemma point_box:
  "setFromPoints [vertex 0 0 0] = Box3 (vertex 0 0 0) (vertex 0 0 0)"
  "setFromBufferAttribute [vertex 0 0 0] = Box3 (vertex 0 0 0) (vertex 0 0 0)"
  "getSize (Box3 (vertex 0 0 0) (vertex 0 0 0)) = Vector3 (Fin 0) (Fin 0) (Fin 0)"
  by (simp_all add: setFromPoints_def setFromBufferAttribute_def makeEmpty_def getSize_def
      isEmpty_def vertex_def double_eval)

lemma point_unit:
  "detectUnit (Fin 0) = \<lparr>multiplier = 1000, unit = ''mm'', confidence = High_metre_detected\<rparr>"
  by (simp add: detectUnit_def)

lemma point_scaled: "jsmul (Fin 0) (js 1000) = Fin 0" "jsmul (Fin 0) (Fin 1000) = Fin 0"
  by (simp_all add: double_eval)

lemma point_try:
  "performPreciseMeasurements_try this [vertex 0 0 0] None =
     Inl (Error_validation_failed,
          this\<lparr>dispatched := dispatched this @ [MeasurementProgress Precise_measurement_running]\<rparr>)"
  by (simp add: performPreciseMeasurements_try_def Let_def point_box point_measures point_unit
      point_scaled validateMeasurements_def dispatchEvent_def)

lemma point_fallback:
  "performFallbackMeasurement \<lparr>position = Some (BufferAttribute [vertex 0 0 0])\<rparr> None =
     Inr \<lparr>measurements = pointRecord, analysis = analyzeFootType (Fin 50) (Fin 30) (Fin 20)\<rparr>"
  by (simp add: performFallbackMeasurement_def computeBoundingBox_def point_box pointRecord_def
      double_eval)

text \<open>
  C10. The record a call returns is the record the engine stores afterwards. The
  validated path does this; the fallback path does not: after a first call on the scan,
  a second call on the single vertex returns the fallback record while the engine still
  holds the record of the scan.
\<close>

theorem fallback_record_not_stored:
  "\<exists>this1 this2.
     performPreciseMeasurements constructor (Some \<lparr>position = Some (BufferAttribute scan)\<rparr>) None =
       Inr (Some scanRecord, this1) \<and>
     getMeasurements this1 = Some scanRecord \<and>
     performPreciseMeasurements this1
       (Some \<lparr>position = Some (BufferAttribute [vertex 0 0 0])\<rparr>) None =
       Inr (Some pointRecord, this2) \<and>
     getMeasurements this2 = Some scanRecord \<and>
     getMeasurements this2 \<noteq> Some pointRecord"
  by (simp add: performPreciseMeasurements_def scan_try point_try point_fallback Let_def
      dispatchEvent_def getMeasurements_def scanRecord_def pointRecord_def)

end
